theory Spec2Isabelle
  imports Complex_Main
begin

section \<open>The Artboard component of Pose-Animator (src/components/Artboard.tsx)\<close>

text \<open>
  The component owns one HTML canvas, a linear undo history of PNG data URLs with a
  cursor, the brush settings and the interaction mode.  Its handlers are embedded below as
  functions from component state to component state; the markup it renders and the
  \<open>customCursor\<close> string, which no handler reads, are left out.  Three things of the
  run-time environment are made explicit:

  \<^item> The bitmap of the canvas is represented by the list of painting commands issued on it
    since the canvas was last covered completely (\<open>pixels\<close>).  Covering the whole canvas
    with an opaque fill, or clearing it, restarts the list.  Equal lists mean equal
    bitmaps; nothing is concluded from two lists being different.
  \<^item> A string that the component handles as an image source is represented by
    \<open>dataurl\<close>: either the PNG that \<open>canvas.toDataURL\<close> produced from a bitmap, or any
    other string, whose decoding by the browser is a parameter \<open>dec\<close> (the decoded
    width and height, or \<open>None\<close> when the browser cannot decode it).
  \<^item> Callbacks that run later (the continuation after \<open>await\<close>, \<open>FileReader.onloadend\<close>,
    \<open>Image.onload\<close>) are \<open>pending\<close> entries queued in the state.  An entry carries the
    \<open>history\<close> and \<open>historyIndex\<close> that its function closure captured from the render in
    which it was created, since that is what \<open>saveState\<close> reads when the callback finally
    runs.

  Events are handled one at a time, each by the handlers of the latest render.  An effect
  that React runs after the render which a handler causes is written as the last step of
  that handler.
\<close>

subsection \<open>Data\<close>

datatype InputMode = Draw | Upload | Prompt

record brush_sizes =
  Small :: nat
  Medium :: nat
  Large :: nat

definition BRUSH_SIZES :: brush_sizes where
  "BRUSH_SIZES = \<lparr>Small = 3, Medium = 8, Large = 15\<rparr>"

definition COLORS :: "string list" where
  "COLORS = [''#000000'', ''#EF4444'', ''#22C55E'', ''#3B82F6'', ''#EAB308'', ''#A855F7'']"

type_synonym point = "real \<times> real"

text \<open>The segments of the 2D context's current path.\<close>

datatype seg =
    MoveTo real real
  | LineTo real real
  | QuadraticCurveTo real real real real
  | ClosePath

text \<open>
  \<open>FillRect style\<close> is a fill of the whole canvas; \<open>Stroke strokeStyle lineWidth lineCap
  lineJoin path\<close> is one call of \<open>context.stroke()\<close>; \<open>DrawImage src dx dy dw dh\<close> is
  one call of \<open>context.drawImage(img, dx, dy, dw, dh)\<close> with the image loaded from \<open>src\<close>.
\<close>

datatype paint =
    FillRect string
  | Stroke string nat string string "seg list"
  | DrawImage dataurl real real real real
and dataurl =
    CanvasPNG nat nat "paint list"
  | Text string

record canvas =
  cv_width :: nat
  cv_height :: nat
  fillStyle :: string
  strokeStyle :: string
  lineWidth :: nat
  lineCap :: string
  lineJoin :: string
  path :: "seg list"
  pixels :: "paint list"

text \<open>What a callback created in some render sees of the React state of that render.\<close>

record closure =
  cl_history :: "dataurl list"
  cl_historyIndex :: int

datatype pending =
    AwaitPose closure
  | ReadFile closure dataurl
  | LoadPose closure dataurl
  | Restore dataurl

record state =
  canvasRef :: "canvas option"
  lastPointRef :: "point option"
  isDrawing :: bool
  mode :: InputMode
  brushColor :: string
  brushSize :: nat
  isSmoothing :: bool
  history :: "dataurl list"
  historyIndex :: int
  prompt :: string
  isGeneratingPose :: bool
  errorMessage :: "string option"
  queue :: "pending list"

subsection \<open>The canvas API as the component uses it\<close>

text \<open>A canvas element as created by the browser: transparent, with the default context.\<close>

definition new_canvas :: "nat \<Rightarrow> nat \<Rightarrow> canvas" where
  "new_canvas w h =
     \<lparr>cv_width = w, cv_height = h, fillStyle = ''#000000'', strokeStyle = ''#000000'',
      lineWidth = 1, lineCap = ''butt'', lineJoin = ''miter'', path = [], pixels = []\<rparr>"

definition toDataURL :: "canvas \<Rightarrow> dataurl" where
  "toDataURL cv = CanvasPNG (cv_width cv) (cv_height cv) (pixels cv)"

text \<open>\<open>context.fillRect(0, 0, canvas.width, canvas.height)\<close>, with an opaque fill style.\<close>

definition fillRect_all :: "canvas \<Rightarrow> canvas" where
  "fillRect_all cv = cv\<lparr>pixels := [FillRect (fillStyle cv)]\<rparr>"

text \<open>\<open>context.clearRect(0, 0, canvas.width, canvas.height)\<close>.\<close>

definition clearRect_all :: "canvas \<Rightarrow> canvas" where
  "clearRect_all cv = cv\<lparr>pixels := []\<rparr>"

definition stroke :: "canvas \<Rightarrow> canvas" where
  "stroke cv =
     cv\<lparr>pixels := pixels cv @
        [Stroke (strokeStyle cv) (lineWidth cv) (lineCap cv) (lineJoin cv) (path cv)]\<rparr>"

text \<open>\<open>closePath\<close> does nothing on a path without subpaths.\<close>

definition closePath :: "canvas \<Rightarrow> canvas" where
  "closePath cv = (if path cv = [] then cv else cv\<lparr>path := path cv @ [ClosePath]\<rparr>)"

text \<open>
  The browser's image decoder.  A PNG made by \<open>toDataURL\<close> decodes to the size of the
  canvas it came from (a canvas without area yields \<open>data:,\<close>, which is no image); for
  any other string the parameter \<open>dec\<close> decides.
\<close>

definition decode :: "(string \<Rightarrow> (nat \<times> nat) option) \<Rightarrow> dataurl \<Rightarrow> (nat \<times> nat) option" where
  "decode dec u =
     (case u of
        CanvasPNG w h ps \<Rightarrow> if w = 0 \<or> h = 0 then None else Some (w, h)
      | Text s \<Rightarrow> dec s)"

text \<open>\<open>history.slice(0, end)\<close>: a negative \<open>end\<close> counts from the end of the array.\<close>

definition slice0 :: "'a list \<Rightarrow> int \<Rightarrow> 'a list" where
  "slice0 xs e = (if e < 0 then take (nat (int (length xs) + e)) xs else take (nat e) xs)"

subsection \<open>History (lines 53--95)\<close>

definition capture :: "state \<Rightarrow> closure" where
  "capture s = \<lparr>cl_history = history s, cl_historyIndex = historyIndex s\<rparr>"

text \<open>
  \<open>restoreCanvasFromHistory\<close>, run by the effect of lines 93--95 after every render in
  which \<open>history\<close> or \<open>historyIndex\<close> changed.  It only starts loading the snapshot; the
  drawing happens in \<open>restore_onload\<close>.  An index beyond the array reads \<open>undefined\<close>,
  which as an image source is a string that does not decode.
\<close>

definition restoreCanvasFromHistory :: "state \<Rightarrow> state" where
  "restoreCanvasFromHistory s =
     (case canvasRef s of
        None \<Rightarrow> s
      | Some cv \<Rightarrow>
          if length (history s) = 0 \<or> historyIndex s < 0 then s
          else let url = (if nat (historyIndex s) < length (history s)
                          then history s ! nat (historyIndex s) else Text ''undefined'')
               in s\<lparr>queue := queue s @ [Restore url]\<rparr>)"

text \<open>
  The \<open>img.onload\<close> of \<open>restoreCanvasFromHistory\<close>, which runs only if the source
  decodes: clear the canvas and draw the snapshot over all of it.  A PNG of the canvas's
  own size is drawn pixel for pixel, so the bitmap becomes the one the snapshot was taken
  from; an image without area paints nothing.
\<close>

definition restore_onload :: "(string \<Rightarrow> (nat \<times> nat) option) \<Rightarrow> dataurl \<Rightarrow> state \<Rightarrow> state" where
  "restore_onload dec url s =
     (case canvasRef s of
        None \<Rightarrow> s
      | Some cv \<Rightarrow>
          (case decode dec url of
             None \<Rightarrow> s
           | Some (iw, ih) \<Rightarrow>
               let cv1 = clearRect_all cv;
                   stretched = cv1\<lparr>pixels :=
                     [DrawImage url 0 0 (real (cv_width cv)) (real (cv_height cv))]\<rparr>;
                   cv2 = (if iw = 0 \<or> ih = 0 then cv1
                          else case url of
                                 CanvasPNG w h ps \<Rightarrow>
                                   if w = cv_width cv \<and> h = cv_height cv
                                   then cv1\<lparr>pixels := ps\<rparr> else stretched
                               | Text t \<Rightarrow> stretched)
               in s\<lparr>canvasRef := Some cv2\<rparr>))"

text \<open>
  \<open>saveState\<close>, as seen from a callback with closure \<open>cl\<close>: the new history is built
  from the captured \<open>history\<close> and \<open>historyIndex\<close>, not from the current ones.  The two
  state updates cause a render, after which the restore effect runs.
\<close>

definition saveState :: "closure \<Rightarrow> state \<Rightarrow> state" where
  "saveState cl s =
     (case canvasRef s of
        None \<Rightarrow> s
      | Some cv \<Rightarrow>
          let url = toDataURL cv;
              newHistory = slice0 (cl_history cl) (cl_historyIndex cl + 1) @ [url]
          in restoreCanvasFromHistory
               (s\<lparr>history := newHistory, historyIndex := int (length newHistory) - 1\<rparr>))"

text \<open>
  \<open>initializeCanvas\<close>, which is also \<open>clearCanvas\<close> and the Clear button.  The array it
  passes to \<open>setHistory\<close> is a new one, so a render and the restore effect always follow.
\<close>

definition initializeCanvas :: "state \<Rightarrow> state" where
  "initializeCanvas s =
     (case canvasRef s of
        None \<Rightarrow> s
      | Some cv \<Rightarrow>
          let cv' = fillRect_all (cv\<lparr>fillStyle := ''white''\<rparr>);
              initialUrl = toDataURL cv'
          in restoreCanvasFromHistory
               (s\<lparr>canvasRef := Some cv', history := [initialUrl], historyIndex := 0\<rparr>))"

subsection \<open>Brush and drawing (lines 98--147)\<close>

text \<open>
  The effect of lines 98--110, run after every render in which the brush changed.  The
  component only ever selects a color of \<open>COLORS\<close> and a size of \<open>BRUSH_SIZES\<close>, values
  which the context accepts as they are.
\<close>

definition brushEffect :: "state \<Rightarrow> state" where
  "brushEffect s =
     (case canvasRef s of
        None \<Rightarrow> s
      | Some cv \<Rightarrow>
          s\<lparr>canvasRef := Some (cv\<lparr>strokeStyle := brushColor s, lineWidth := brushSize s,
                                  lineCap := ''round'', lineJoin := ''round''\<rparr>)\<rparr>)"

definition setBrushColor :: "string \<Rightarrow> state \<Rightarrow> state" where
  "setBrushColor c s = brushEffect (s\<lparr>brushColor := c\<rparr>)"

definition setBrushSize :: "nat \<Rightarrow> state \<Rightarrow> state" where
  "setBrushSize n s = brushEffect (s\<lparr>brushSize := n\<rparr>)"

definition setIsSmoothing :: "bool \<Rightarrow> state \<Rightarrow> state" where
  "setIsSmoothing b s = s\<lparr>isSmoothing := b\<rparr>"

definition setMode :: "InputMode \<Rightarrow> state \<Rightarrow> state" where
  "setMode m s = s\<lparr>mode := m\<rparr>"

definition setPrompt :: "string \<Rightarrow> state \<Rightarrow> state" where
  "setPrompt t s = s\<lparr>prompt := t\<rparr>"

definition startDrawing :: "point \<Rightarrow> state \<Rightarrow> state" where
  "startDrawing p s =
     (case canvasRef s of
        None \<Rightarrow> s
      | Some cv \<Rightarrow>
          if mode s \<noteq> Draw then s
          else s\<lparr>canvasRef := Some (cv\<lparr>path := [MoveTo (fst p) (snd p)]\<rparr>),
                 isDrawing := True, lastPointRef := Some p\<rparr>)"

definition draw :: "point \<Rightarrow> state \<Rightarrow> state" where
  "draw p s =
     (if \<not> isDrawing s \<or> mode s \<noteq> Draw then s
      else case lastPointRef s of
        None \<Rightarrow> s
      | Some l \<Rightarrow>
          (case canvasRef s of
             None \<Rightarrow> s
           | Some cv \<Rightarrow>
               let cv1 = (if isSmoothing s
                          then let midPointX = (fst l + fst p) / 2;
                                   midPointY = (snd l + snd p) / 2
                               in cv\<lparr>path := path cv @
                                     [QuadraticCurveTo (fst l) (snd l) midPointX midPointY]\<rparr>
                          else cv\<lparr>path := path cv @ [LineTo (fst p) (snd p)]\<rparr>)
               in s\<lparr>canvasRef := Some (stroke cv1), lastPointRef := Some p\<rparr>))"

definition stopDrawing :: "state \<Rightarrow> state" where
  "stopDrawing s =
     (if \<not> isDrawing s then s
      else case canvasRef s of
        None \<Rightarrow> s
      | Some cv \<Rightarrow>
          saveState (capture s)
            (s\<lparr>canvasRef := Some (closePath cv), isDrawing := False, lastPointRef := None\<rparr>))"

subsection \<open>Loading a pose image (lines 150--201)\<close>

text \<open>
  The rectangle computed in lines 160--172, as \<open>(dx, dy, drawWidth, drawHeight)\<close>, for a
  \<open>W\<close> by \<open>H\<close> canvas and an \<open>iw\<close> by \<open>ih\<close> image.  JavaScript numbers are taken as
  exact reals here.
\<close>

definition placement :: "nat \<Rightarrow> nat \<Rightarrow> nat \<Rightarrow> nat \<Rightarrow> real \<times> real \<times> real \<times> real" where
  "placement W H iw ih =
     (let canvasAspect = real W / real H;
          imgAspect = real iw / real ih;
          drawHeight = (if canvasAspect > imgAspect then real H else real W / imgAspect);
          drawWidth = (if canvasAspect > imgAspect then real H * imgAspect else real W);
          dx = (real W - drawWidth) / 2;
          dy = (real H - drawHeight) / 2
      in (dx, dy, drawWidth, drawHeight))"

text \<open>
  \<open>context.drawImage(img, dx, dy, drawWidth, drawHeight)\<close> of line 174.  When a
  dimension of the image or of the canvas is zero the quotients above are infinite or
  not numbers, or the rectangle is empty, and the browser paints nothing.
\<close>

definition drawPose :: "dataurl \<Rightarrow> nat \<Rightarrow> nat \<Rightarrow> canvas \<Rightarrow> canvas" where
  "drawPose url iw ih cv =
     (if iw = 0 \<or> ih = 0 \<or> cv_width cv = 0 \<or> cv_height cv = 0 then cv
      else case placement (cv_width cv) (cv_height cv) iw ih of
             (dx, dy, drawWidth, drawHeight) \<Rightarrow>
               cv\<lparr>pixels := pixels cv @ [DrawImage url dx dy drawWidth drawHeight]\<rparr>)"

text \<open>
  \<open>loadPoseImageOntoCanvas\<close> only creates the image and sets its source; no \<open>onerror\<close>
  handler is installed.
\<close>

definition loadPoseImageOntoCanvas :: "closure \<Rightarrow> dataurl \<Rightarrow> state \<Rightarrow> state" where
  "loadPoseImageOntoCanvas cl base64Image s =
     (case canvasRef s of
        None \<Rightarrow> s
      | Some cv \<Rightarrow> s\<lparr>queue := queue s @ [LoadPose cl base64Image]\<rparr>)"

text \<open>
  The \<open>img.onload\<close> of lines 156--176.  It runs only if the source decodes.  The canvas
  is the one that \<open>loadPoseImageOntoCanvas\<close> found, the component's only one.
\<close>

definition pose_onload :: "(string \<Rightarrow> (nat \<times> nat) option) \<Rightarrow> closure \<Rightarrow> dataurl \<Rightarrow> state \<Rightarrow> state" where
  "pose_onload dec cl url s =
     (case canvasRef s of
        None \<Rightarrow> s
      | Some cv \<Rightarrow>
          (case decode dec url of
             None \<Rightarrow> s
           | Some (iw, ih) \<Rightarrow>
               let cv1 = fillRect_all (cv\<lparr>fillStyle := ''white''\<rparr>);
                   cv2 = drawPose url iw ih cv1
               in saveState cl (s\<lparr>canvasRef := Some cv2\<rparr>)))"

text \<open>\<open>handlePoseUpload\<close>: the file, if one was chosen, is read asynchronously.\<close>

definition handlePoseUpload :: "dataurl option \<Rightarrow> state \<Rightarrow> state" where
  "handlePoseUpload file s =
     (case file of
        None \<Rightarrow> s
      | Some content \<Rightarrow> s\<lparr>queue := queue s @ [ReadFile (capture s) content]\<rparr>)"

text \<open>\<open>handleGeneratePose\<close> up to the \<open>await\<close>.\<close>

definition handleGeneratePose :: "state \<Rightarrow> state" where
  "handleGeneratePose s =
     (if prompt s = [] then s
      else s\<lparr>isGeneratingPose := True, errorMessage := None,
             queue := queue s @ [AwaitPose (capture s)]\<rparr>)"

text \<open>
  \<open>handleGeneratePose\<close> after the \<open>await\<close>: \<open>Inr resultImage\<close> when the promise is
  fulfilled, \<open>Inl message\<close> when it is rejected with an error of that message.
\<close>

definition handleGeneratePose_resume :: "closure \<Rightarrow> string + dataurl \<Rightarrow> state \<Rightarrow> state" where
  "handleGeneratePose_resume cl response s =
     (let s1 = (case response of
                  Inr resultImage \<Rightarrow> loadPoseImageOntoCanvas cl resultImage s
                | Inl message \<Rightarrow> s\<lparr>errorMessage := Some message\<rparr>)
      in s1\<lparr>isGeneratingPose := False\<rparr>)"

text \<open>The import of the specification, with nothing happening in between.\<close>

definition importImage :: "(string \<Rightarrow> (nat \<times> nat) option) \<Rightarrow> dataurl \<Rightarrow> state \<Rightarrow> state" where
  "importImage dec url s =
     (case canvasRef s of None \<Rightarrow> s | Some cv \<Rightarrow> pose_onload dec (capture s) url s)"

subsection \<open>Undo, redo, export (lines 204--210)\<close>

text \<open>A change of \<open>historyIndex\<close> causes a render, after which the restore effect runs.\<close>

definition handleUndo :: "state \<Rightarrow> state" where
  "handleUndo s =
     (if historyIndex s > 0
      then restoreCanvasFromHistory (s\<lparr>historyIndex := historyIndex s - 1\<rparr>) else s)"

definition handleRedo :: "state \<Rightarrow> state" where
  "handleRedo s =
     (if historyIndex s < int (length (history s)) - 1
      then restoreCanvasFromHistory (s\<lparr>historyIndex := historyIndex s + 1\<rparr>) else s)"

text \<open>
  \<open>canvasRef.current?.toDataURL('image/png') || ''\<close>.  Only data URLs are ever drawn on
  the canvas, so it is never tainted and \<open>toDataURL\<close> does not throw.
\<close>

definition getImageData :: "state \<Rightarrow> dataurl" where
  "getImageData s =
     (case canvasRef s of
        None \<Rightarrow> Text []
      | Some cv \<Rightarrow> (let url = toDataURL cv in if url = Text [] then Text [] else url))"

subsection \<open>The component over time\<close>

text \<open>The state of the first render, and the effects that run when it is mounted.\<close>

definition initial_state :: "canvas option \<Rightarrow> state" where
  "initial_state c =
     \<lparr>canvasRef = c, lastPointRef = None, isDrawing = False, mode = Draw,
      brushColor = COLORS ! 0, brushSize = Medium BRUSH_SIZES, isSmoothing = True,
      history = [], historyIndex = - 1, prompt = [], isGeneratingPose = False,
      errorMessage = None, queue = []\<rparr>"

definition mount :: "canvas option \<Rightarrow> state" where
  "mount c = brushEffect (initializeCanvas (initial_state c))"

text \<open>The canvas of the component: \<open>width="512" height="256"\<close>.\<close>

definition artboard :: state where
  "artboard = mount (Some (new_canvas 512 256))"

text \<open>
  Callback \<open>i\<close> of the queue runs: a file has been read, or an image has finished
  loading (or failed to, in which case nothing runs).  A pending pose request is not a
  callback; it waits for \<open>settle\<close>.
\<close>

definition run_callback :: "(string \<Rightarrow> (nat \<times> nat) option) \<Rightarrow> nat \<Rightarrow> state \<Rightarrow> state" where
  "run_callback dec i s =
     (if i < length (queue s)
      then let s' = s\<lparr>queue := take i (queue s) @ drop (Suc i) (queue s)\<rparr>
           in (case queue s ! i of
                 AwaitPose cl \<Rightarrow> s
               | ReadFile cl content \<Rightarrow> loadPoseImageOntoCanvas cl content s'
               | LoadPose cl url \<Rightarrow> pose_onload dec cl url s'
               | Restore url \<Rightarrow> restore_onload dec url s')
      else s)"

text \<open>The promise of the pose request queued at \<open>i\<close> is fulfilled or rejected.\<close>

definition settle :: "nat \<Rightarrow> string + dataurl \<Rightarrow> state \<Rightarrow> state" where
  "settle i response s =
     (if i < length (queue s)
      then let s' = s\<lparr>queue := take i (queue s) @ drop (Suc i) (queue s)\<rparr>
           in (case queue s ! i of
                 AwaitPose cl \<Rightarrow> handleGeneratePose_resume cl response s'
               | ReadFile cl content \<Rightarrow> s
               | LoadPose cl url \<Rightarrow> s
               | Restore url \<Rightarrow> s)
      else s)"

datatype event =
    MouseDown point
  | MouseMove point
  | MouseUp
  | MouseLeave
  | Clear
  | Undo
  | Redo
  | SelectMode InputMode
  | SelectColor string
  | SelectSize nat
  | SetSmoothing bool
  | ChooseFile "dataurl option"
  | TypePrompt string
  | GeneratePose
  | Response nat "string + dataurl"
  | Callback nat

fun step :: "(string \<Rightarrow> (nat \<times> nat) option) \<Rightarrow> state \<Rightarrow> event \<Rightarrow> state" where
  "step dec s (MouseDown p) = startDrawing p s"
| "step dec s (MouseMove p) = draw p s"
| "step dec s MouseUp = stopDrawing s"
| "step dec s MouseLeave = stopDrawing s"
| "step dec s Clear = initializeCanvas s"
| "step dec s Undo = handleUndo s"
| "step dec s Redo = handleRedo s"
| "step dec s (SelectMode m) = setMode m s"
| "step dec s (SelectColor c) = setBrushColor c s"
| "step dec s (SelectSize n) = setBrushSize n s"
| "step dec s (SetSmoothing b) = setIsSmoothing b s"
| "step dec s (ChooseFile f) = handlePoseUpload f s"
| "step dec s (TypePrompt t) = setPrompt t s"
| "step dec s GeneratePose = handleGeneratePose s"
| "step dec s (Response i r) = settle i r s"
| "step dec s (Callback i) = run_callback dec i s"

definition run :: "(string \<Rightarrow> (nat \<times> nat) option) \<Rightarrow> event list \<Rightarrow> state \<Rightarrow> state" where
  "run dec es s = foldl (step dec) s es"

text \<open>
  For the examples: a browser that decodes one particular data URL, as an image 100
  pixels wide and 200 pixels high, and no other string.
\<close>

definition sample_decoder :: "string \<Rightarrow> (nat \<times> nat) option" where
  "sample_decoder t = (if t = ''data:image/png;base64,POSE'' then Some (100, 200) else None)"

text \<open>
  States for the examples: the mounted component once its first restore has run; the
  same with the pen down at (10, 10); and a state with a redo branch (one stroke drawn
  and undone, each restore run) and the pen down again.
\<close>

definition example_idle :: state where
  "example_idle = run sample_decoder [Callback 0] artboard"

definition example_pen_down :: state where
  "example_pen_down = run sample_decoder [Callback 0, MouseDown (10, 10)] artboard"


text \<open>The snapshot of a white canvas.\<close>

definition blank :: "nat \<Rightarrow> nat \<Rightarrow> dataurl" where
  "blank W H = CanvasPNG W H [FillRect ''white'']"

subsection \<open>Well-formed histories\<close>




section \<open>Unfolding the handlers\<close>

lemmas handler_defs =
  initializeCanvas_def restoreCanvasFromHistory_def saveState_def brushEffect_def
  setBrushColor_def setBrushSize_def setIsSmoothing_def setMode_def setPrompt_def
  startDrawing_def draw_def stopDrawing_def loadPoseImageOntoCanvas_def pose_onload_def
  handlePoseUpload_def handleGeneratePose_def handleGeneratePose_resume_def importImage_def
  handleUndo_def handleRedo_def getImageData_def run_callback_def settle_def restore_onload_def
  capture_def toDataURL_def fillRect_all_def clearRect_all_def stroke_def closePath_def
  decode_def slice0_def drawPose_def blank_def Let_def

lemmas example_defs =
  run_def artboard_def mount_def initial_state_def new_canvas_def sample_decoder_def
  placement_def COLORS_def BRUSH_SIZES_def

section \<open>Preservation of the history invariant\<close>

























section \<open>Commits\<close>

lemma stopDrawing_commit:
  assumes "canvasRef s = Some cv" and "isDrawing s" and "0 \<le> historyIndex s"
  shows "history (stopDrawing s) = take (nat (historyIndex s) + 1) (history s) @ [toDataURL cv]"
    and "historyIndex (stopDrawing s) = int (length (history (stopDrawing s))) - 1"
    and "handleRedo (stopDrawing s) = stopDrawing s"
  using assms by (simp_all add: handler_defs nat_add_distrib)


lemma draw_other_mode: "mode s \<noteq> Draw \<Longrightarrow> draw p s = s"
  by (simp add: draw_def)

lemma moves_other_mode: "mode s \<noteq> Draw \<Longrightarrow> run dec (map MouseMove ps) s = s"
  unfolding run_def by (induction ps) (simp_all add: draw_other_mode)



text \<open>
  A load callback commits onto the history that its closure captured, whatever the
  history has become in the meantime.
\<close>

lemma callback_commit:
  assumes "canvasRef s = Some cv" and "decode dec u \<noteq> None" and "0 \<le> cl_historyIndex cl"
  shows "history (pose_onload dec cl u s)
           = take (nat (cl_historyIndex cl) + 1) (cl_history cl)
               @ [getImageData (pose_onload dec cl u s)]"
  using assms
  by (auto simp add: pose_onload_def saveState_def restoreCanvasFromHistory_def slice0_def
        getImageData_def toDataURL_def Let_def nat_add_distrib split: prod.splits)

section \<open>The example states\<close>

lemma example_idle_eval:
  "example_idle =
    \<lparr>canvasRef = Some
       \<lparr>cv_width = 512, cv_height = 256, fillStyle = ''white'', strokeStyle = ''#000000'',
        lineWidth = 8, lineCap = ''round'', lineJoin = ''round'', path = [],
        pixels = [FillRect ''white'']\<rparr>,
     lastPointRef = None, isDrawing = False, mode = Draw, brushColor = ''#000000'',
     brushSize = 8, isSmoothing = True,
     history = [CanvasPNG 512 256 [FillRect ''white'']],
     historyIndex = 0, prompt = [], isGeneratingPose = False, errorMessage = None,
     queue = []\<rparr>"
  by (simp add: example_idle_def handler_defs example_defs)

lemma example_pen_down_eval:
  "example_pen_down =
    \<lparr>canvasRef = Some
       \<lparr>cv_width = 512, cv_height = 256, fillStyle = ''white'', strokeStyle = ''#000000'',
        lineWidth = 8, lineCap = ''round'', lineJoin = ''round'', path = [MoveTo 10 10],
        pixels = [FillRect ''white'']\<rparr>,
     lastPointRef = Some (10, 10), isDrawing = True, mode = Draw, brushColor = ''#000000'',
     brushSize = 8, isSmoothing = True,
     history = [CanvasPNG 512 256 [FillRect ''white'']],
     historyIndex = 0, prompt = [], isGeneratingPose = False, errorMessage = None,
     queue = []\<rparr>"
  by (simp add: example_pen_down_def handler_defs example_defs)

section \<open>The claims\<close>

text \<open>
  C1, as amended.  The component keeps no record of a reset, so a pose that arrives after
  \<open>clear()\<close> is applied: when a request is issued, the canvas is cleared, the response
  then arrives with an image that decodes and that image finishes loading, the surface is
  the white canvas with the pose drawn on it in its letterbox rectangle, and this surface
  is committed as the last entry of the history, with the cursor on it.
\<close>

theorem late_pose_is_applied:
  assumes "canvasRef s = Some cv" and "prompt s \<noteq> []" and "decode dec u = Some (iw, ih)"
    and "0 < iw" and "0 < ih" and "0 < cv_width cv" and "0 < cv_height cv"
    and "placement (cv_width cv) (cv_height cv) iw ih = (dx, dy, dw, dh)"
  shows
   "getImageData (run dec [GeneratePose, Clear, Response (length (queue s)) (Inr u),
                           Callback (Suc (length (queue s)))] s)
      = CanvasPNG (cv_width cv) (cv_height cv) [FillRect ''white'', DrawImage u dx dy dw dh] \<and>
    history (run dec [GeneratePose, Clear, Response (length (queue s)) (Inr u),
                      Callback (Suc (length (queue s)))] s) \<noteq> [] \<and>
    last (history (run dec [GeneratePose, Clear, Response (length (queue s)) (Inr u),
                            Callback (Suc (length (queue s)))] s))
      = CanvasPNG (cv_width cv) (cv_height cv) [FillRect ''white'', DrawImage u dx dy dw dh] \<and>
    historyIndex (run dec [GeneratePose, Clear, Response (length (queue s)) (Inr u),
                           Callback (Suc (length (queue s)))] s)
      = int (length (history (run dec [GeneratePose, Clear, Response (length (queue s)) (Inr u),
                                       Callback (Suc (length (queue s)))] s))) - 1"
proof -
  let ?n = "length (queue s)"
  let ?cv0 = "fillRect_all (cv\<lparr>fillStyle := ''white''\<rparr>)"
  let ?s1 = "handleGeneratePose s"
  let ?s2 = "initializeCanvas ?s1"
  let ?s3 = "settle ?n (Inr u) ?s2"
  let ?R = "run_callback dec (Suc ?n) ?s3"
  have r: "run dec [GeneratePose, Clear, Response ?n (Inr u), Callback (Suc ?n)] s = ?R"
    by (simp add: run_def)
  have t1: "queue ?s1 = queue s @ [AwaitPose (capture s)]" and c1: "canvasRef ?s1 = Some cv"
    using assms(1,2) by (simp_all add: handleGeneratePose_def)
  have c2: "canvasRef ?s2 = Some ?cv0"
    and t2: "queue ?s2 = queue s @ [AwaitPose (capture s), Restore (toDataURL ?cv0)]"
    using t1 c1 by (simp_all add: initializeCanvas_def restoreCanvasFromHistory_def Let_def)
  have c3: "canvasRef ?s3 = Some ?cv0"
    and t3: "queue ?s3 = queue s @ [Restore (toDataURL ?cv0), LoadPose (capture s) u]"
    using t2 c2
    by (simp_all add: settle_def handleGeneratePose_resume_def loadPoseImageOntoCanvas_def
          Let_def nth_append)
  have R: "?R = pose_onload dec (capture s) u
                  (?s3\<lparr>queue := queue s @ [Restore (toDataURL ?cv0)]\<rparr>)"
    using t3 by (simp add: run_callback_def Let_def nth_append)
  have cR: "canvasRef ?R = Some (drawPose u iw ih ?cv0)"
    using R c3 assms(3)
    by (simp add: pose_onload_def saveState_def restoreCanvasFromHistory_def Let_def
          fillRect_all_def)
  have hR: "history ?R = slice0 (history s) (historyIndex s + 1) @ [toDataURL (drawPose u iw ih ?cv0)]"
    and iR: "historyIndex ?R = int (length (history ?R)) - 1"
    using R c3 assms(3)
    by (simp_all add: pose_onload_def saveState_def restoreCanvasFromHistory_def Let_def
          fillRect_all_def capture_def)
  have g: "getImageData ?R = toDataURL (drawPose u iw ih ?cv0)"
    using cR by (simp add: getImageData_def toDataURL_def)
  have p: "toDataURL (drawPose u iw ih ?cv0)
      = CanvasPNG (cv_width cv) (cv_height cv) [FillRect ''white'', DrawImage u dx dy dw dh]"
    using assms(4-8) by (simp add: toDataURL_def drawPose_def fillRect_all_def)
  show ?thesis
    unfolding r using g hR iR p by simp
qed

theorem late_pose_is_applied_witness:
  "canvasRef (setPrompt ''a backflip'' example_idle)
     = Some (the (canvasRef (setPrompt ''a backflip'' example_idle))) \<and>
   prompt (setPrompt ''a backflip'' example_idle) \<noteq> [] \<and>
   decode sample_decoder (Text ''data:image/png;base64,POSE'') = Some (100, 200) \<and>
   (0::nat) < 100 \<and> (0::nat) < 200 \<and>
   0 < cv_width (the (canvasRef (setPrompt ''a backflip'' example_idle))) \<and>
   0 < cv_height (the (canvasRef (setPrompt ''a backflip'' example_idle))) \<and>
   placement (cv_width (the (canvasRef (setPrompt ''a backflip'' example_idle))))
       (cv_height (the (canvasRef (setPrompt ''a backflip'' example_idle)))) 100 200
     = (192, 0, 128, 256) \<and>
   getImageData (run sample_decoder
       [GeneratePose, Clear, Response 0 (Inr (Text ''data:image/png;base64,POSE'')), Callback 1]
       (setPrompt ''a backflip'' example_idle))
     = CanvasPNG 512 256
         [FillRect ''white'', DrawImage (Text ''data:image/png;base64,POSE'') 192 0 128 256] \<and>
   last (history (run sample_decoder
       [GeneratePose, Clear, Response 0 (Inr (Text ''data:image/png;base64,POSE'')), Callback 1]
       (setPrompt ''a backflip'' example_idle)))
     = CanvasPNG 512 256
         [FillRect ''white'', DrawImage (Text ''data:image/png;base64,POSE'') 192 0 128 256] \<and>
   historyIndex (run sample_decoder
       [GeneratePose, Clear, Response 0 (Inr (Text ''data:image/png;base64,POSE'')), Callback 1]
       (setPrompt ''a backflip'' example_idle)) = 1"
proof -
  have d: "decode sample_decoder (Text ''data:image/png;base64,POSE'') = Some (100, 200)"
    by (simp add: decode_def sample_decoder_def)
  have p: "placement 512 256 100 200 = (192, 0, 128, 256)"
    by (simp add: placement_def Let_def)
  show ?thesis
    using late_pose_is_applied [of "setPrompt ''a backflip'' example_idle"
        "the (canvasRef (setPrompt ''a backflip'' example_idle))" sample_decoder
        "Text ''data:image/png;base64,POSE''" 100 200 192 0 128 256]
    by (simp add: d p setPrompt_def example_idle_eval handler_defs example_defs)
qed

text \<open>
  C1 as stated fails.  On the 512 by 256 artboard: type a prompt, request the pose, press
  Clear (surface and history are blank), then let the response arrive and the image
  load.  The pose has been drawn on the surface and the history has a second entry.
\<close>

theorem stale_pose_counterexample:
  "history (run sample_decoder
       [Callback 0, TypePrompt ''a backflip'', GeneratePose, Clear, Callback 1] artboard)
     = [blank 512 256] \<and>
   getImageData (run sample_decoder
       [Callback 0, TypePrompt ''a backflip'', GeneratePose, Clear, Callback 1] artboard)
     = blank 512 256 \<and>
   getImageData (run sample_decoder
       [Callback 0, TypePrompt ''a backflip'', GeneratePose, Clear, Callback 1,
        Response 0 (Inr (Text ''data:image/png;base64,POSE'')), Callback 0] artboard)
     = CanvasPNG 512 256
         [FillRect ''white'', DrawImage (Text ''data:image/png;base64,POSE'') 192 0 128 256] \<and>
   history (run sample_decoder
       [Callback 0, TypePrompt ''a backflip'', GeneratePose, Clear, Callback 1,
        Response 0 (Inr (Text ''data:image/png;base64,POSE'')), Callback 0] artboard)
     = [blank 512 256,
        CanvasPNG 512 256
         [FillRect ''white'', DrawImage (Text ''data:image/png;base64,POSE'') 192 0 128 256]] \<and>
   historyIndex (run sample_decoder
       [Callback 0, TypePrompt ''a backflip'', GeneratePose, Clear, Callback 1,
        Response 0 (Inr (Text ''data:image/png;base64,POSE'')), Callback 0] artboard) = 1"
  by (simp add: handler_defs example_defs)

text \<open>
  C2, as amended.  \<open>clear()\<close> has no error case (without a canvas it does nothing) and
  resets surface and history to the single blank snapshot, but it does not end a stroke in
  progress: \<open>isDrawing\<close> and the last pen position are left as they are, so the next
  \<open>extendStroke\<close> still strokes the path, onto the cleared surface, and the following
  \<open>endStroke\<close> commits a second history entry.
\<close>

theorem clear_keeps_stroke_active:
  "(canvasRef s = None \<longrightarrow> initializeCanvas s = s) \<and>
   (\<forall>cv. canvasRef s = Some cv \<longrightarrow>
      getImageData (initializeCanvas s) = blank (cv_width cv) (cv_height cv) \<and>
      history (initializeCanvas s) = [blank (cv_width cv) (cv_height cv)] \<and>
      historyIndex (initializeCanvas s) = 0 \<and>
      isDrawing (initializeCanvas s) = isDrawing s \<and>
      lastPointRef (initializeCanvas s) = lastPointRef s \<and>
      (\<forall>l. isDrawing s \<and> mode s = Draw \<and> lastPointRef s = Some l \<longrightarrow>
         lastPointRef (draw p (initializeCanvas s)) = Some p \<and>
         map_option pixels (canvasRef (draw p (initializeCanvas s)))
           = Some [FillRect ''white'',
                   Stroke (strokeStyle cv) (lineWidth cv) (lineCap cv) (lineJoin cv)
                     (path cv @
                       [if isSmoothing s
                        then QuadraticCurveTo (fst l) (snd l)
                               ((fst l + fst p) / 2) ((snd l + snd p) / 2)
                        else LineTo (fst p) (snd p)])] \<and>
         history (stopDrawing (draw p (initializeCanvas s)))
           = [blank (cv_width cv) (cv_height cv), getImageData (draw p (initializeCanvas s))] \<and>
         historyIndex (stopDrawing (draw p (initializeCanvas s))) = 1) \<and>
      (isDrawing s \<longrightarrow>
         history (stopDrawing (initializeCanvas s))
           = [blank (cv_width cv) (cv_height cv), blank (cv_width cv) (cv_height cv)] \<and>
         historyIndex (stopDrawing (initializeCanvas s)) = 1))"
  by (auto simp add: handler_defs)

theorem clear_keeps_stroke_active_witness:
  "canvasRef (mount None) = None \<and> initializeCanvas (mount None) = mount None \<and>
   canvasRef example_pen_down = Some (the (canvasRef example_pen_down)) \<and>
   isDrawing example_pen_down \<and> mode example_pen_down = Draw \<and>
   lastPointRef example_pen_down = Some (10, 10) \<and>
   isDrawing (initializeCanvas example_pen_down) \<and>
   lastPointRef (draw (20, 20) (initializeCanvas example_pen_down)) = Some (20, 20) \<and>
   map_option pixels (canvasRef (draw (20, 20) (initializeCanvas example_pen_down)))
     = Some [FillRect ''white'',
             Stroke ''#000000'' 8 ''round'' ''round''
               [MoveTo 10 10, QuadraticCurveTo 10 10 15 15]] \<and>
   length (history (stopDrawing (draw (20, 20) (initializeCanvas example_pen_down)))) = 2 \<and>
   history (stopDrawing (initializeCanvas example_pen_down)) = [blank 512 256, blank 512 256] \<and>
   historyIndex (stopDrawing (initializeCanvas example_pen_down)) = 1"
  using clear_keeps_stroke_active [of "mount None" "(20, 20)"]
    clear_keeps_stroke_active [of example_pen_down "(20, 20)"]
  by (simp add: example_pen_down_eval mount_def initial_state_def handler_defs)

text \<open>
  C2 as stated fails.  With the pen down on the artboard, after Clear the stroke is still
  active; a pointer move records the new pen position and strokes the path onto the
  cleared surface; releasing the pointer commits that surface as a second history entry.
\<close>

theorem clear_abandons_stroke_counterexample:
  "isDrawing (run sample_decoder [Callback 0, MouseDown (10, 10), Clear] artboard) \<and>
   lastPointRef (run sample_decoder [Callback 0, MouseDown (10, 10), Clear] artboard)
     = Some (10, 10) \<and>
   history (run sample_decoder [Callback 0, MouseDown (10, 10), Clear] artboard)
     = [blank 512 256] \<and>
   lastPointRef (run sample_decoder
       [Callback 0, MouseDown (10, 10), Clear, MouseMove (20, 20)] artboard) = Some (20, 20) \<and>
   map_option pixels (canvasRef (run sample_decoder
       [Callback 0, MouseDown (10, 10), Clear, MouseMove (20, 20)] artboard))
     = Some [FillRect ''white'',
             Stroke ''#000000'' 8 ''round'' ''round''
               [MoveTo 10 10, QuadraticCurveTo 10 10 15 15]] \<and>
   history (run sample_decoder
       [Callback 0, MouseDown (10, 10), Clear, MouseMove (20, 20), MouseUp] artboard)
     = [blank 512 256,
        CanvasPNG 512 256
          [FillRect ''white'',
           Stroke ''#000000'' 8 ''round'' ''round''
             [MoveTo 10 10, QuadraticCurveTo 10 10 15 15]]] \<and>
   historyIndex (run sample_decoder
       [Callback 0, MouseDown (10, 10), Clear, MouseMove (20, 20), MouseUp] artboard) = 1"
  by (simp add: handler_defs example_defs)




text \<open>
  C4, as amended.  For an input that cannot be decoded, \<open>importImage\<close> does nothing and
  signals nothing: the load callback never runs and no error handler is installed, so the
  surface, the history, the cursor and the error message are exactly as before the call,
  whether the image came from a file or from a pose request (which only resets its own
  \<open>isGeneratingPose\<close> and \<open>errorMessage\<close>).
\<close>

theorem undecodable_import_ignored:
  assumes "decode dec u = None"
  shows
   "pose_onload dec cl u s = s \<and>
    importImage dec u s = s \<and>
    run dec [Callback (length (queue s))] (loadPoseImageOntoCanvas cl u s) = s \<and>
    run dec [ChooseFile (Some u), Callback (length (queue s)), Callback (length (queue s))] s = s \<and>
    (prompt s \<noteq> [] \<longrightarrow>
       run dec [GeneratePose, Response (length (queue s)) (Inr u), Callback (length (queue s))] s
         = s\<lparr>isGeneratingPose := False, errorMessage := None\<rparr>)"
proof (intro conjI impI)
  show a: "pose_onload dec cl u s = s" for cl s
    using assms by (simp add: pose_onload_def split: option.splits)
  show "importImage dec u s = s"
    using a by (simp add: importImage_def split: option.splits)
  show b: "run dec [Callback (length (queue s))] (loadPoseImageOntoCanvas cl u s) = s" for cl s
    using a by (cases "canvasRef s") (simp_all add: run_def run_callback_def loadPoseImageOntoCanvas_def)
  have "run dec [ChooseFile (Some u), Callback (length (queue s)), Callback (length (queue s))] s
      = run dec [Callback (length (queue s))] (loadPoseImageOntoCanvas (capture s) u s)"
    by (simp add: run_def run_callback_def handlePoseUpload_def)
  then show "run dec [ChooseFile (Some u), Callback (length (queue s)), Callback (length (queue s))] s = s"
    using b by simp
  assume p: "prompt s \<noteq> []"
  have "run dec [GeneratePose, Response (length (queue s)) (Inr u), Callback (length (queue s))] s
      = run dec [Callback (length (queue s))]
          ((loadPoseImageOntoCanvas (capture s) u (s\<lparr>isGeneratingPose := True, errorMessage := None\<rparr>))
             \<lparr>isGeneratingPose := False\<rparr>)"
    using p by (simp add: run_def settle_def handleGeneratePose_def handleGeneratePose_resume_def)
  also have "\<dots> = s\<lparr>isGeneratingPose := False, errorMessage := None\<rparr>"
    using a by (cases "canvasRef s") (simp_all add: run_def run_callback_def loadPoseImageOntoCanvas_def)
  finally show "run dec [GeneratePose, Response (length (queue s)) (Inr u), Callback (length (queue s))] s
         = s\<lparr>isGeneratingPose := False, errorMessage := None\<rparr>" .
qed

theorem undecodable_import_ignored_witness:
  "decode sample_decoder (Text ''not an image'') = None \<and>
   prompt (setPrompt ''a backflip'' example_idle) \<noteq> [] \<and>
   importImage sample_decoder (Text ''not an image'') example_idle = example_idle \<and>
   run sample_decoder [ChooseFile (Some (Text ''not an image'')), Callback 0, Callback 0]
       example_idle = example_idle \<and>
   run sample_decoder [GeneratePose, Response 0 (Inr (Text ''not an image'')), Callback 0]
       (setPrompt ''a backflip'' example_idle)
     = setPrompt ''a backflip'' example_idle"
proof -
  have d: "decode sample_decoder (Text ''not an image'') = None"
    by (simp add: decode_def sample_decoder_def)
  show ?thesis
    using undecodable_import_ignored [OF d, of "capture example_idle" example_idle]
      undecodable_import_ignored [OF d, of "capture example_idle" "setPrompt ''a backflip'' example_idle"]
    by (simp add: d setPrompt_def example_idle_eval)
qed

text \<open>
  C4 as stated fails, in its first half.  A pose request on the artboard that is answered
  with a string that is not an image leaves the state exactly as it was before the
  request, with no error message; so does choosing a file that is not an image.
\<close>

theorem decode_error_counterexample:
  "decode sample_decoder (Text ''not an image'') = None \<and>
   run sample_decoder
       [Callback 0, TypePrompt ''a backflip'', GeneratePose,
        Response 0 (Inr (Text ''not an image'')), Callback 0] artboard
     = run sample_decoder [Callback 0, TypePrompt ''a backflip''] artboard \<and>
   errorMessage (run sample_decoder
       [Callback 0, TypePrompt ''a backflip'', GeneratePose,
        Response 0 (Inr (Text ''not an image'')), Callback 0] artboard) = None \<and>
   run sample_decoder
       [Callback 0, ChooseFile (Some (Text ''not an image'')), Callback 0, Callback 0] artboard
     = run sample_decoder [Callback 0] artboard \<and>
   errorMessage (run sample_decoder
       [Callback 0, ChooseFile (Some (Text ''not an image'')), Callback 0, Callback 0] artboard)
     = None"
  by (simp add: handler_defs example_defs)









text \<open>
  C10.  When the mode is changed away from free drawing while a stroke is active, every
  following pointer move leaves the state as it is, and ending the stroke still commits
  the current bitmap after the cursor, so with the cursor on the last entry the history
  grows by one.  If the bitmap is still the one of the snapshot at the cursor, the new
  entry equals its predecessor.
\<close>

theorem mode_change_mid_stroke:
  assumes "canvasRef s = Some cv" and "isDrawing s" and "m \<noteq> Draw"
    and "0 \<le> historyIndex s" and "historyIndex s < int (length (history s))"
  shows
   "run dec (map MouseMove ps) (setMode m s) = setMode m s \<and>
    history (stopDrawing (setMode m s))
      = take (nat (historyIndex s) + 1) (history s) @ [toDataURL cv] \<and>
    historyIndex (stopDrawing (setMode m s)) = historyIndex s + 1 \<and>
    (historyIndex s = int (length (history s)) - 1 \<longrightarrow>
       length (history (stopDrawing (setMode m s))) = length (history s) + 1) \<and>
    (toDataURL cv = history s ! nat (historyIndex s) \<longrightarrow>
       history (stopDrawing (setMode m s)) ! nat (historyIndex s + 1)
         = history (stopDrawing (setMode m s)) ! nat (historyIndex s))"
proof (intro conjI impI)
  have md: "mode (setMode m s) \<noteq> Draw" using assms(3) by (simp add: setMode_def)
  show "run dec (map MouseMove ps) (setMode m s) = setMode m s"
    using md by (rule moves_other_mode)
  have c: "canvasRef (setMode m s) = Some cv" and i: "isDrawing (setMode m s)"
    and h: "0 \<le> historyIndex (setMode m s)"
    using assms by (simp_all add: setMode_def)
  have hist: "history (stopDrawing (setMode m s))
      = take (nat (historyIndex s) + 1) (history s) @ [toDataURL cv]"
    using stopDrawing_commit(1)[OF c i h] by (simp add: setMode_def)
  show "history (stopDrawing (setMode m s))
      = take (nat (historyIndex s) + 1) (history s) @ [toDataURL cv]" by (rule hist)
  have len: "length (take (nat (historyIndex s) + 1) (history s)) = nat (historyIndex s) + 1"
    using assms(4,5) by simp
  show "historyIndex (stopDrawing (setMode m s)) = historyIndex s + 1"
    using stopDrawing_commit(2)[OF c i h] hist len assms(4) by simp
  show "length (history (stopDrawing (setMode m s))) = length (history s) + 1"
    if "historyIndex s = int (length (history s)) - 1"
    using that hist assms(4) by simp
  assume same: "toDataURL cv = history s ! nat (historyIndex s)"
  have a: "history (stopDrawing (setMode m s)) ! nat (historyIndex s + 1) = toDataURL cv"
    using hist len assms(4) by (simp add: nth_append nat_add_distrib)
  have b: "history (stopDrawing (setMode m s)) ! nat (historyIndex s) = history s ! nat (historyIndex s)"
    using hist len assms(4,5) by (simp add: nth_append)
  show "history (stopDrawing (setMode m s)) ! nat (historyIndex s + 1)
         = history (stopDrawing (setMode m s)) ! nat (historyIndex s)"
    using a b same by simp
qed

theorem mode_change_mid_stroke_witness:
  "canvasRef example_pen_down = Some (the (canvasRef example_pen_down)) \<and>
   isDrawing example_pen_down \<and> Upload \<noteq> Draw \<and>
   0 \<le> historyIndex example_pen_down \<and>
   historyIndex example_pen_down < int (length (history example_pen_down)) \<and>
   historyIndex example_pen_down = int (length (history example_pen_down)) - 1 \<and>
   toDataURL (the (canvasRef example_pen_down))
     = history example_pen_down ! nat (historyIndex example_pen_down) \<and>
   run sample_decoder (map MouseMove [(20, 20), (30, 25)]) (setMode Upload example_pen_down)
     = setMode Upload example_pen_down \<and>
   history (stopDrawing (setMode Upload example_pen_down))
     = [CanvasPNG 512 256 [FillRect ''white''], CanvasPNG 512 256 [FillRect ''white'']] \<and>
   historyIndex (stopDrawing (setMode Upload example_pen_down)) = 1"
proof -
  have e: "example_pen_down =
    \<lparr>canvasRef = Some
       \<lparr>cv_width = 512, cv_height = 256, fillStyle = ''white'', strokeStyle = ''#000000'',
        lineWidth = 8, lineCap = ''round'', lineJoin = ''round'', path = [MoveTo 10 10],
        pixels = [FillRect ''white'']\<rparr>,
     lastPointRef = Some (10, 10), isDrawing = True, mode = Draw, brushColor = ''#000000'',
     brushSize = 8, isSmoothing = True,
     history = [CanvasPNG 512 256 [FillRect ''white'']],
     historyIndex = 0, prompt = [], isGeneratingPose = False, errorMessage = None,
     queue = []\<rparr>"
    by (simp add: example_pen_down_def handler_defs example_defs)
  show ?thesis
    using mode_change_mid_stroke [of example_pen_down "the (canvasRef example_pen_down)"
        Upload sample_decoder "[(20, 20), (30, 25)]"]
    by (simp add: e toDataURL_def)
qed

end
